theory Spec2Isabelle
  imports Main
begin

section \<open>PrecacheStrategy (workbox-precaching/src/utils/PrecacheStrategy.ts)\<close>

text \<open>
  A shallow embedding of the precaching strategy. The strategy's three methods
  (\<open>_handle\<close>, \<open>_handleFetch\<close>, \<open>_handleInstall\<close>) are asynchronous and talk to a
  \<open>StrategyHandler\<close> they receive as an argument. Each awaited handler call finishes before
  the next statement runs, so a method is a function from the state of the outside world
  (cache store, network) to an outcome and the new state. A rejected promise or a thrown
  exception is the left summand of the outcome.
\<close>

subsection \<open>Values, requests, responses, errors\<close>

text \<open>
  The JavaScript values that occur in the per-call parameters and in the details of a
  \<open>WorkboxError\<close>. Equality of two such values is the strict equality \<open>===\<close>.
\<close>

datatype js_value = JUndefined | JNull | JBool bool | JNum int | JStr string

record request =
  url :: string
  http_method :: string

record response =
  status :: nat
  redirected :: bool
  headers :: "(string \<times> string) list"
  body :: string

text \<open>
  \<open>WorkboxError code details\<close> is \<open>new WorkboxError(code, details)\<close>. \<open>TypeError\<close> is
  what JavaScript throws where a property of \<open>undefined\<close> is read. \<open>NetworkError\<close> stands
  for a rejection produced by a collaborator.
\<close>

datatype error =
    WorkboxError string "(string \<times> js_value) list"
  | TypeError string
  | NetworkError

text \<open>
  The outcome of an awaited call: the error of a rejection, or the value the promise
  resolved to, where \<open>None\<close> is \<open>undefined\<close>.
\<close>

type_synonym 'w outcome = "(error + response option) \<times> 'w"

subsection \<open>Plugins and the strategy object\<close>

text \<open>
  A plugin is a bundle of optional callbacks, of which the strategy only looks at
  \<open>cacheWillUpdate\<close>. The source compares that callback with the module's own function
  \<open>copyRedirectedResponses\<close> by identity (\<open>!==\<close>); the callback is therefore a tagged
  value: the module's function, or a function supplied by the caller.
\<close>

datatype callback = CopyRedirectedResponses | UserCallback "response \<Rightarrow> response"

record plugin =
  cacheWillUpdate :: "callback option"

record PrecacheStrategy =
  cacheName :: string
  plugins :: "plugin list"

record StrategyOptions =
  opt_cacheName :: string
  opt_plugins :: "plugin list"

text \<open>
  Modelled from the spec: \<open>copyResponse\<close> of workbox-core is not part of the source at
  hand. The spec (4.4) says that it produces a semantically equivalent response with the
  redirect flag cleared, preserving status, headers and body.
\<close>

definition copyResponse :: "response \<Rightarrow> response" where
  "copyResponse r = r\<lparr>redirected := False\<rparr>"

text \<open>Lines 20-22: \<open>response.redirected ? await copyResponse(response) : response\<close>.\<close>

definition copyRedirectedResponses :: "response \<Rightarrow> response" where
  "copyRedirectedResponses r = (if redirected r then copyResponse r else r)"

text \<open>
  Modelled from the spec: the constructor of the base class \<open>Strategy\<close>
  (workbox-strategies) is not part of the source at hand. The spec (3) says that the cache
  name is configured once at construction and that the hook set is the ordered sequence of
  the callback bundles registered by the caller.
\<close>

definition Strategy_constructor :: "StrategyOptions \<Rightarrow> PrecacheStrategy" where
  "Strategy_constructor options =
     \<lparr>cacheName = opt_cacheName options, plugins = opt_plugins options\<rparr>"

text \<open>
  Lines 26-34: \<open>super(options)\<close>, then
  \<open>this.plugins.push({cacheWillUpdate: copyRedirectedResponses})\<close>. \<open>push\<close> appends at the
  end of the array.
\<close>

definition PrecacheStrategy_constructor :: "StrategyOptions \<Rightarrow> PrecacheStrategy" where
  "PrecacheStrategy_constructor options =
     (let this = Strategy_constructor options
      in this\<lparr>plugins := plugins this @ [\<lparr>cacheWillUpdate = Some CopyRedirectedResponses\<rparr>]\<rparr>)"

text \<open>
  Lines 127-135: the loop over \<open>this.plugins\<close> returns true at the first plugin whose
  \<open>cacheWillUpdate\<close> is defined and is not \<open>copyRedirectedResponses\<close>.
\<close>

fun usesCustom_loop :: "plugin list \<Rightarrow> bool" where
  "usesCustom_loop [] = False"
| "usesCustom_loop (p # ps) =
     (case cacheWillUpdate p of
        None \<Rightarrow> usesCustom_loop ps
      | Some CopyRedirectedResponses \<Rightarrow> usesCustom_loop ps
      | Some (UserCallback f) \<Rightarrow> True)"

definition usesCustomCacheableResponseLogic :: "PrecacheStrategy \<Rightarrow> bool" where
  "usesCustomCacheableResponseLogic self = usesCustom_loop (plugins self)"

subsection \<open>The handler\<close>

text \<open>
  The \<open>StrategyHandler\<close> the methods receive: the triggering event (absent or carrying its
  \<open>type\<close>), the per-call parameters (absent or an object with \<open>fallbackToNetwork\<close> and
  \<open>cacheKey\<close>), and the three asynchronous operations the strategy awaits, each a
  function of the world \<open>'w\<close> it acts on.
\<close>

record ExtendableEvent =
  event_type :: string

record params =
  fallbackToNetwork :: js_value
  cacheKey :: js_value

record 'w StrategyHandler =
  event :: "ExtendableEvent option"
  params :: "params option"
  cacheMatch :: "request \<Rightarrow> 'w \<Rightarrow> 'w outcome"
  fetch :: "request \<Rightarrow> 'w \<Rightarrow> 'w outcome"
  fetchAndCachePut :: "request \<Rightarrow> 'w \<Rightarrow> 'w outcome"

subsection \<open>The strategy's methods\<close>

text \<open>
  Lines 45-88. \<open>NODE_ENV\<close> is \<open>process.env.NODE_ENV\<close>. The calls of the logger have no
  effect on the outcome, but their arguments are evaluated: in a build that is not a
  production build, line 75 reads \<open>handler.params.cacheKey\<close>, which throws a
  \<open>TypeError\<close> when \<open>handler.params\<close> is undefined.
\<close>

definition handleFetch ::
  "string \<Rightarrow> PrecacheStrategy \<Rightarrow> request \<Rightarrow> 'w StrategyHandler \<Rightarrow> 'w \<Rightarrow> 'w outcome" where
  "handleFetch NODE_ENV self request handler w =
     (case cacheMatch handler request w of
        (Inl e, w1) \<Rightarrow> (Inl e, w1)
      | (Inr response, w1) \<Rightarrow>
          (case (case response of
                   Some r \<Rightarrow> (Inr response, w1)
                 | None \<Rightarrow>
                     (if (case params handler of
                            None \<Rightarrow> False
                          | Some p \<Rightarrow> fallbackToNetwork p = JBool False)
                      then (Inl (WorkboxError ''missing-precache-entry''
                                  [(''cacheName'', JStr (cacheName self)),
                                   (''url'', JStr (url request))]), w1)
                      else fetch handler request w1)) of
             (Inl e, w2) \<Rightarrow> (Inl e, w2)
           | (Inr response', w2) \<Rightarrow>
               (if NODE_ENV \<noteq> ''production''
                then (case params handler of
                        None \<Rightarrow>
                          (Inl (TypeError ''Cannot read property cacheKey of undefined''), w2)
                      | Some p \<Rightarrow> (Inr response', w2))
                else (Inr response', w2))))"

text \<open>
  Lines 90-114. The details of the error are built before the error is thrown, and
  \<open>response.status\<close> at line 109 throws a \<open>TypeError\<close> when \<open>response\<close> is undefined.
\<close>

definition handleInstall ::
  "PrecacheStrategy \<Rightarrow> request \<Rightarrow> 'w StrategyHandler \<Rightarrow> 'w \<Rightarrow> 'w outcome" where
  "handleInstall self request handler w =
     (case fetchAndCachePut handler request w of
        (Inl e, w1) \<Rightarrow> (Inl e, w1)
      | (Inr response, w1) \<Rightarrow>
          (let responseSafeToPrecache = (response \<noteq> None);
               responseSafeToPrecache =
                 (if (case response of
                        None \<Rightarrow> False
                      | Some r \<Rightarrow> 400 \<le> status r \<and> \<not> usesCustomCacheableResponseLogic self)
                  then False else responseSafeToPrecache)
           in if \<not> responseSafeToPrecache
              then (case response of
                      None \<Rightarrow> (Inl (TypeError ''Cannot read property status of undefined''), w1)
                    | Some r \<Rightarrow>
                        (Inl (WorkboxError ''bad-precaching-response''
                               [(''url'', JStr (url request)),
                                (''status'', JNum (int (status r)))]), w1))
              else (Inr response, w1)))"

text \<open>Lines 36-43: the dispatch on \<open>handler.event && handler.event.type === 'install'\<close>.\<close>

definition handle ::
  "string \<Rightarrow> PrecacheStrategy \<Rightarrow> request \<Rightarrow> 'w StrategyHandler \<Rightarrow> 'w \<Rightarrow> 'w outcome" where
  "handle NODE_ENV self request handler w =
     (if (case event handler of None \<Rightarrow> False | Some e \<Rightarrow> event_type e = ''install'')
      then handleInstall self request handler w
      else handleFetch NODE_ENV self request handler w)"

subsection \<open>Counting the handler's operations\<close>

text \<open>
  To count what a method asks of its handler, the handler is wrapped: the wrapped handler
  acts on the world of the handler it wraps and on three counters, one for each
  operation, and a call of an operation adds one to its counter.
\<close>

record calls =
  lookups :: nat
  fetches :: nat
  stores :: nat

definition counted :: "'w StrategyHandler \<Rightarrow> ('w \<times> calls) StrategyHandler" where
  "counted h =
     \<lparr>event = event h,
      params = params h,
      cacheMatch = (\<lambda>req (w, c).
         case cacheMatch h req w of (res, w') \<Rightarrow> (res, (w', c\<lparr>lookups := Suc (lookups c)\<rparr>))),
      fetch = (\<lambda>req (w, c).
         case fetch h req w of (res, w') \<Rightarrow> (res, (w', c\<lparr>fetches := Suc (fetches c)\<rparr>))),
      fetchAndCachePut = (\<lambda>req (w, c).
         case fetchAndCachePut h req w of
           (res, w') \<Rightarrow> (res, (w', c\<lparr>stores := Suc (stores c)\<rparr>)))\<rparr>"

subsection \<open>The collaborators, from the spec\<close>

text \<open>
  The world of the collaborators: the cache store of the strategy's cache name, the most
  recent commit first, and the network, which answers the URLs it knows.
\<close>

record world =
  cache :: "(string \<times> response) list"
  network :: "(string \<times> response) list"

text \<open>
  Modelled from the spec: the class \<open>StrategyHandler\<close> of workbox-strategies is not part
  of the source at hand. The spec (3, 4.3, 6) says: the will-update transforms of the hook
  set run in registration order; \<open>lookup(request)\<close> yields the stored response or
  not-found; \<open>fetch(request)\<close> yields a response and may fail; \<open>fetchAndStore\<close> performs a
  network fetch and, on success, runs the full transform chain and commits the resulting
  response to the cache store.
\<close>

definition applyCallback :: "callback \<Rightarrow> response \<Rightarrow> response" where
  "applyCallback cb r =
     (case cb of CopyRedirectedResponses \<Rightarrow> copyRedirectedResponses r | UserCallback f \<Rightarrow> f r)"

fun transformChain :: "plugin list \<Rightarrow> callback list" where
  "transformChain [] = []"
| "transformChain (p # ps) =
     (case cacheWillUpdate p of
        None \<Rightarrow> transformChain ps
      | Some cb \<Rightarrow> cb # transformChain ps)"

definition runTransformChain :: "plugin list \<Rightarrow> response \<Rightarrow> response" where
  "runTransformChain ps r = foldl (\<lambda>r' cb. applyCallback cb r') r (transformChain ps)"

definition lookup :: "request \<Rightarrow> world \<Rightarrow> world outcome" where
  "lookup req w = (Inr (map_of (cache w) (url req)), w)"

definition networkFetch :: "request \<Rightarrow> world \<Rightarrow> world outcome" where
  "networkFetch req w =
     (case map_of (network w) (url req) of
        None \<Rightarrow> (Inl NetworkError, w)
      | Some r \<Rightarrow> (Inr (Some r), w))"

definition fetchAndStore :: "plugin list \<Rightarrow> request \<Rightarrow> world \<Rightarrow> world outcome" where
  "fetchAndStore ps req w =
     (case networkFetch req w of
        (Inl e, w1) \<Rightarrow> (Inl e, w1)
      | (Inr None, w1) \<Rightarrow> (Inr None, w1)
      | (Inr (Some r), w1) \<Rightarrow>
          (Inr (Some r), w1\<lparr>cache := (url req, runTransformChain ps r) # cache w1\<rparr>))"

definition newStrategyHandler ::
  "PrecacheStrategy \<Rightarrow> ExtendableEvent option \<Rightarrow> params option \<Rightarrow> world StrategyHandler" where
  "newStrategyHandler strategy ev ps =
     \<lparr>event = ev,
      params = ps,
      cacheMatch = lookup,
      fetch = networkFetch,
      fetchAndCachePut = fetchAndStore (plugins strategy)\<rparr>"

subsection \<open>The lifetime of an instance\<close>




subsection \<open>Concrete inputs\<close>

text \<open>
  The inputs at which the theorems below are instantiated: a request, responses of a given
  status and redirect flag, a strategy built without caller plugins, a strategy built with
  one caller plugin whose \<open>cacheWillUpdate\<close> sets the redirect flag, a world with given
  cache and network contents, and counters at zero.
\<close>

definition ex_request :: request where
  "ex_request = \<lparr>url = ''/index.html'', http_method = ''GET''\<rparr>"

definition ex_response :: "nat \<Rightarrow> bool \<Rightarrow> response" where
  "ex_response code redir =
     \<lparr>status = code, redirected = redir, headers = [(''content-type'', ''text/html'')],
      body = ''<html></html>''\<rparr>"

definition ex_strategy :: PrecacheStrategy where
  "ex_strategy =
     PrecacheStrategy_constructor \<lparr>opt_cacheName = ''precache-v1'', opt_plugins = []\<rparr>"

definition markRedirected :: "response \<Rightarrow> response" where
  "markRedirected r = r\<lparr>redirected := True\<rparr>"

definition ex_custom_strategy :: PrecacheStrategy where
  "ex_custom_strategy =
     PrecacheStrategy_constructor
       \<lparr>opt_cacheName = ''precache-v1'',
        opt_plugins = [\<lparr>cacheWillUpdate = Some (UserCallback markRedirected)\<rparr>]\<rparr>"

definition ex_world :: "(string \<times> response) list \<Rightarrow> (string \<times> response) list \<Rightarrow> world" where
  "ex_world stored served = \<lparr>cache = stored, network = served\<rparr>"

definition no_calls :: calls where
  "no_calls = \<lparr>lookups = 0, fetches = 0, stores = 0\<rparr>"

section \<open>Properties\<close>

subsection \<open>Auxiliary facts\<close>

lemmas ex_defs = ex_request_def ex_response_def ex_strategy_def ex_custom_strategy_def
  ex_world_def no_calls_def PrecacheStrategy_constructor_def Strategy_constructor_def
  newStrategyHandler_def lookup_def networkFetch_def fetchAndStore_def
  runTransformChain_def applyCallback_def copyRedirectedResponses_def
  copyResponse_def usesCustomCacheableResponseLogic_def markRedirected_def

text \<open>
  The detector of lines 127-135 answers true exactly when some plugin of the hook set
  carries a \<open>cacheWillUpdate\<close> supplied by the caller.
\<close>

lemma usesCustom_loop_iff:
  "usesCustom_loop ps \<longleftrightarrow> (\<exists>p \<in> set ps. \<exists>f. cacheWillUpdate p = Some (UserCallback f))"
  by (induction ps) (auto split: option.splits callback.splits)

lemma counted_cacheMatch:
  "cacheMatch (counted h) req (w, c) =
     (fst (cacheMatch h req w), (snd (cacheMatch h req w), c\<lparr>lookups := Suc (lookups c)\<rparr>))"
  by (simp add: counted_def split: prod.splits)

lemma counted_fetch:
  "fetch (counted h) req (w, c) =
     (fst (fetch h req w), (snd (fetch h req w), c\<lparr>fetches := Suc (fetches c)\<rparr>))"
  by (simp add: counted_def split: prod.splits)

lemma counted_fetchAndCachePut:
  "fetchAndCachePut (counted h) req (w, c) =
     (fst (fetchAndCachePut h req w),
      (snd (fetchAndCachePut h req w), c\<lparr>stores := Suc (stores c)\<rparr>))"
  by (simp add: counted_def split: prod.splits)

lemma counted_params: "params (counted h) = params h"
  by (simp add: counted_def)

lemma counted_event: "event (counted h) = event h"
  by (simp add: counted_def)




text \<open>
  The dispatcher (lines 36-43) hands an \<open>install\<close> event to \<open>_handleInstall\<close> and
  everything else, an absent event included, to \<open>_handleFetch\<close>.
\<close>

lemma handle_install:
  "event h = Some e \<Longrightarrow> event_type e = ''install'' \<Longrightarrow>
   handle NODE_ENV self req h w = handleInstall self req h w"
  by (simp add: handle_def)

lemma handle_other:
  "event h = None \<or> (\<exists>e. event h = Some e \<and> event_type e \<noteq> ''install'') \<Longrightarrow>
   handle NODE_ENV self req h w = handleFetch NODE_ENV self req h w"
  by (auto simp: handle_def)

text \<open>
  Every call of \<open>_handleFetch\<close> makes one cache lookup, at most one fetch and no
  fetch-and-store call, whatever the handler does and however the call ends.
\<close>

lemma handleFetch_calls:
  assumes "handleFetch NODE_ENV self req (counted h) (w, c) = (res, (w', c'))"
  shows "lookups c' = Suc (lookups c) \<and> fetches c' \<le> Suc (fetches c) \<and> stores c' = stores c"
  using assms
  by (auto simp: handleFetch_def counted_cacheMatch counted_fetch counted_params
      split: option.splits sum.splits prod.splits if_splits)

text \<open>
  A cached response is returned as it is, after the lookup alone, in a production build
  and in any build when the per-call parameters are present.
\<close>

lemma handleFetch_hit:
  assumes "cacheMatch h req w = (Inr (Some r), w1)"
    and "NODE_ENV = ''production'' \<or> params h \<noteq> None"
  shows "handleFetch NODE_ENV self req (counted h) (w, c) =
           (Inr (Some r), (w1, c\<lparr>lookups := Suc (lookups c)\<rparr>))"
  using assms
  by (auto simp: handleFetch_def counted_cacheMatch counted_params split: option.splits)

text \<open>
  On a miss with the fallback not disabled, the result of the one fetch is returned, in a
  production build and in any build when the per-call parameters are present.
\<close>

lemma handleFetch_fallback:
  assumes "cacheMatch h req w = (Inr None, w1)"
    and "params h = None \<or> (\<exists>p. params h = Some p \<and> fallbackToNetwork p \<noteq> JBool False)"
    and "fetch h req w1 = (Inr res, w2)"
    and "NODE_ENV = ''production'' \<or> params h \<noteq> None"
  shows "handleFetch NODE_ENV self req (counted h) (w, c) =
           (Inr res, (w2, c\<lparr>lookups := Suc (lookups c), fetches := Suc (fetches c)\<rparr>))"
  using assms
  by (auto simp: handleFetch_def counted_cacheMatch counted_fetch counted_params
      split: option.splits)

subsection \<open>Install-time population\<close>

text \<open>
  Claim C1: when the fetched response has status 400 or more and no caller-supplied
  will-update transform is installed, the populator fails with \<open>bad-precaching-response\<close>
  and performs zero store commits. The source throws the error, with the request URL and
  the status, for every handler. But the call has by then asked its handler to fetch and
  cache-put the response (\<open>fetchAndCachePut\<close>, line 91), the very response that lines
  94-106 go on to find not safe to precache: in place of no store operation the failed call
  has made one, and nothing takes it back.
\<close>

theorem C1_bad_response_after_store:
  assumes "fetchAndCachePut h req w = (Inr (Some r), w1)"
    and "400 \<le> status r"
    and "\<forall>p \<in> set (plugins self). \<forall>f. cacheWillUpdate p \<noteq> Some (UserCallback f)"
  shows "handleInstall self req (counted h) (w, c) =
           (Inl (WorkboxError ''bad-precaching-response''
                  [(''url'', JStr (url req)), (''status'', JNum (int (status r)))]),
            (w1, c\<lparr>stores := Suc (stores c)\<rparr>))"
proof -
  have "\<not> usesCustomCacheableResponseLogic self"
    using assms(3) by (simp add: usesCustomCacheableResponseLogic_def usesCustom_loop_iff)
  then show ?thesis
    using assms(1,2) by (simp add: handleInstall_def counted_fetchAndCachePut)
qed

theorem C1_bad_response_after_store_witness:
  "400 \<le> status (ex_response 404 False) \<and>
   handleInstall ex_strategy ex_request
       (counted (newStrategyHandler ex_strategy (Some \<lparr>event_type = ''install''\<rparr>) None))
       (ex_world [] [(''/index.html'', ex_response 404 False)], no_calls) =
     (Inl (WorkboxError ''bad-precaching-response''
            [(''url'', JStr ''/index.html''), (''status'', JNum 404)]),
      (ex_world [(''/index.html'', ex_response 404 False)]
                [(''/index.html'', ex_response 404 False)],
       \<lparr>lookups = 0, fetches = 0, stores = 1\<rparr>))"
  using C1_bad_response_after_store
    [of "newStrategyHandler ex_strategy (Some \<lparr>event_type = ''install''\<rparr>) None"
      ex_request "ex_world [] [(''/index.html'', ex_response 404 False)]"
      "ex_response 404 False"
      "ex_world [(''/index.html'', ex_response 404 False)]
                [(''/index.html'', ex_response 404 False)]"
      ex_strategy no_calls]
  by (simp add: ex_defs)

text \<open>
  With the fetch-and-store of the spec as the handler's \<open>fetchAndCachePut\<close>, the cache
  store, empty before the failed call, holds the response of status 404 as a result of it.
\<close>

lemma handleInstall_bad_response_stored:
  "400 \<le> status (ex_response 404 False) \<and>
   \<not> usesCustomCacheableResponseLogic ex_strategy \<and>
   fst (handleInstall ex_strategy ex_request
       (newStrategyHandler ex_strategy (Some \<lparr>event_type = ''install''\<rparr>) None)
       (ex_world [] [(''/index.html'', ex_response 404 False)])) =
     Inl (WorkboxError ''bad-precaching-response''
            [(''url'', JStr ''/index.html''), (''status'', JNum 404)]) \<and>
   map_of (cache (snd (handleInstall ex_strategy ex_request
       (newStrategyHandler ex_strategy (Some \<lparr>event_type = ''install''\<rparr>) None)
       (ex_world [] [(''/index.html'', ex_response 404 False)])))) ''/index.html'' =
     Some (ex_response 404 False)"
  by (simp add: handleInstall_def ex_defs)

text \<open>
  Claim C4: when fetch-and-store yields no response at all, the populator is to fail with
  \<open>bad-precaching-response\<close> carrying the URL and a marker of absence for the status. The
  source finds the result unsafe (line 94), but the details of the error it is about to
  throw read \<open>response.status\<close> (line 109) of the absent response: what is thrown is a
  \<open>TypeError\<close>, not the \<open>WorkboxError\<close>.
\<close>

theorem C4_absent_response_TypeError:
  "handleInstall ex_strategy ex_request
       (counted ((newStrategyHandler ex_strategy (Some \<lparr>event_type = ''install''\<rparr>) None)
          \<lparr>fetchAndCachePut := (\<lambda>req w. (Inr None, w))\<rparr>))
       (ex_world [] [], no_calls) =
     (Inl (TypeError ''Cannot read property status of undefined''),
      (ex_world [] [], \<lparr>lookups = 0, fetches = 0, stores = 1\<rparr>))"
  by (simp add: handleInstall_def counted_def ex_defs)

text \<open>
  Claim C5: when the fetch-and-store call yields a response of status 400 or more and some
  plugin of the hook set carries a caller-supplied \<open>cacheWillUpdate\<close> (a callback other
  than the redirect normalizer), the detector answers true, the status check is bypassed,
  and the populator returns the response after its one fetch-and-store call, leaving the
  world as that call committed it.
\<close>

theorem C5_custom_logic_bypasses_check:
  assumes "fetchAndCachePut h req w = (Inr (Some r), w1)"
    and "400 \<le> status r"
    and "p \<in> set (plugins self)"
    and "cacheWillUpdate p = Some (UserCallback f)"
  shows "usesCustomCacheableResponseLogic self \<and>
         handleInstall self req (counted h) (w, c) =
           (Inr (Some r), (w1, c\<lparr>stores := Suc (stores c)\<rparr>))"
proof -
  have "usesCustomCacheableResponseLogic self"
    using assms(3,4) by (auto simp: usesCustomCacheableResponseLogic_def usesCustom_loop_iff)
  then show ?thesis
    using assms(1) by (simp add: handleInstall_def counted_fetchAndCachePut)
qed

theorem C5_custom_logic_bypasses_check_witness:
  "400 \<le> status (ex_response 404 False) \<and>
   usesCustomCacheableResponseLogic ex_custom_strategy \<and>
   handleInstall ex_custom_strategy ex_request
       (counted (newStrategyHandler ex_custom_strategy (Some \<lparr>event_type = ''install''\<rparr>) None))
       (ex_world [] [(''/index.html'', ex_response 404 False)], no_calls) =
     (Inr (Some (ex_response 404 False)),
      (ex_world [(''/index.html'', ex_response 404 False)]
                [(''/index.html'', ex_response 404 False)],
       \<lparr>lookups = 0, fetches = 0, stores = 1\<rparr>))"
  using C5_custom_logic_bypasses_check
    [of "newStrategyHandler ex_custom_strategy (Some \<lparr>event_type = ''install''\<rparr>) None"
      ex_request "ex_world [] [(''/index.html'', ex_response 404 False)]"
      "ex_response 404 False"
      "ex_world [(''/index.html'', ex_response 404 False)]
                [(''/index.html'', ex_response 404 False)]"
      "\<lparr>cacheWillUpdate = Some (UserCallback markRedirected)\<rparr>"
      ex_custom_strategy markRedirected no_calls]
  by (simp add: ex_defs)

text \<open>
  Claim C10: when no plugin of the hook set carries a caller-supplied \<open>cacheWillUpdate\<close>
  and the fetch-and-store call yields a response of a status below 400, the status 0 of
  an opaque response included, the populator returns that response without error.
\<close>

theorem C10_below_400_safe:
  assumes "fetchAndCachePut h req w = (Inr (Some r), w1)"
    and "status r < 400"
    and "\<forall>p \<in> set (plugins self). \<forall>f. cacheWillUpdate p \<noteq> Some (UserCallback f)"
  shows "handleInstall self req (counted h) (w, c) =
           (Inr (Some r), (w1, c\<lparr>stores := Suc (stores c)\<rparr>))"
  using assms(1,2) by (simp add: handleInstall_def counted_fetchAndCachePut)

theorem C10_below_400_safe_witness:
  "status (ex_response 0 False) < 400 \<and>
   handleInstall ex_strategy ex_request
       (counted (newStrategyHandler ex_strategy (Some \<lparr>event_type = ''install''\<rparr>) None))
       (ex_world [] [(''/index.html'', ex_response 0 False)], no_calls) =
     (Inr (Some (ex_response 0 False)),
      (ex_world [(''/index.html'', ex_response 0 False)]
                [(''/index.html'', ex_response 0 False)],
       \<lparr>lookups = 0, fetches = 0, stores = 1\<rparr>))"
  using C10_below_400_safe
    [of "newStrategyHandler ex_strategy (Some \<lparr>event_type = ''install''\<rparr>) None"
      ex_request "ex_world [] [(''/index.html'', ex_response 0 False)]"
      "ex_response 0 False"
      "ex_world [(''/index.html'', ex_response 0 False)]
                [(''/index.html'', ex_response 0 False)]"
      ex_strategy no_calls]
  by (simp add: ex_defs)

subsection \<open>The hook set and the redirect normalizer\<close>




text \<open>
  Claim C8: the redirect normalizer returns, for a response whose redirect flag is set, a
  response with the flag cleared and the same status, headers and body, and returns a
  response whose flag is not set as it is.
\<close>

theorem C8_copyRedirectedResponses:
  "(redirected r \<longrightarrow>
      redirected (copyRedirectedResponses r) = False \<and>
      status (copyRedirectedResponses r) = status r \<and>
      headers (copyRedirectedResponses r) = headers r \<and>
      body (copyRedirectedResponses r) = body r) \<and>
   (\<not> redirected r \<longrightarrow> copyRedirectedResponses r = r)"
  by (simp add: copyRedirectedResponses_def copyResponse_def)

theorem C8_copyRedirectedResponses_witness:
  "redirected (ex_response 200 True) \<and>
   copyRedirectedResponses (ex_response 200 True) = ex_response 200 False \<and>
   \<not> redirected (ex_response 301 False) \<and>
   copyRedirectedResponses (ex_response 301 False) = ex_response 301 False"
  using C8_copyRedirectedResponses [of "ex_response 200 True"]
    C8_copyRedirectedResponses [of "ex_response 301 False"]
  by (simp add: ex_response_def)

subsection \<open>Request-time serving\<close>

text \<open>
  Claim C3: when the cache lookup misses and the per-call parameters are present with
  \<open>fallbackToNetwork\<close> equal to \<open>false\<close>, the server fails with \<open>missing-precache-entry\<close>
  carrying the cache name and the request URL; the call has made its one lookup and no
  fetch.
\<close>

theorem C3_missing_entry_no_fetch:
  assumes "cacheMatch h req w = (Inr None, w1)"
    and "params h = Some p"
    and "fallbackToNetwork p = JBool False"
  shows "handleFetch NODE_ENV self req (counted h) (w, c) =
           (Inl (WorkboxError ''missing-precache-entry''
                  [(''cacheName'', JStr (cacheName self)), (''url'', JStr (url req))]),
            (w1, c\<lparr>lookups := Suc (lookups c)\<rparr>)) \<and>
         fetches (snd (snd (handleFetch NODE_ENV self req (counted h) (w, c)))) = fetches c"
  using assms by (simp add: handleFetch_def counted_cacheMatch counted_params)

theorem C3_missing_entry_no_fetch_witness:
  "handleFetch ''production'' ex_strategy ex_request
       (counted (newStrategyHandler ex_strategy (Some \<lparr>event_type = ''fetch''\<rparr>)
          (Some \<lparr>fallbackToNetwork = JBool False, cacheKey = JStr ''/index.html?v=1''\<rparr>)))
       (ex_world [] [(''/index.html'', ex_response 200 False)], no_calls) =
     (Inl (WorkboxError ''missing-precache-entry''
            [(''cacheName'', JStr ''precache-v1''), (''url'', JStr ''/index.html'')]),
      (ex_world [] [(''/index.html'', ex_response 200 False)],
       \<lparr>lookups = 1, fetches = 0, stores = 0\<rparr>))"
  using C3_missing_entry_no_fetch
    [of "newStrategyHandler ex_strategy (Some \<lparr>event_type = ''fetch''\<rparr>)
          (Some \<lparr>fallbackToNetwork = JBool False, cacheKey = JStr ''/index.html?v=1''\<rparr>)"
      ex_request "ex_world [] [(''/index.html'', ex_response 200 False)]"
      "ex_world [] [(''/index.html'', ex_response 200 False)]"
      "\<lparr>fallbackToNetwork = JBool False, cacheKey = JStr ''/index.html?v=1''\<rparr>"
      "''production''" ex_strategy no_calls]
  by (simp add: ex_defs)

text \<open>
  Claim C6: a request present in the cache store is to be answered with the stored
  response and without a fetch. The source does so in a production build, and in any build
  when the per-call parameters are present (lemma \<open>handleFetch_hit\<close>). In a build that is
  not a production build, with the parameters absent, line 75 reads
  \<open>handler.params.cacheKey\<close> and the call ends in a \<open>TypeError\<close> after the lookup.
\<close>

theorem C6_hit_without_params_TypeError:
  "map_of (cache (ex_world [(''/index.html'', ex_response 200 False)] [])) (url ex_request) =
     Some (ex_response 200 False) \<and>
   handleFetch ''development'' ex_strategy ex_request
       (counted (newStrategyHandler ex_strategy (Some \<lparr>event_type = ''fetch''\<rparr>) None))
       (ex_world [(''/index.html'', ex_response 200 False)] [], no_calls) =
     (Inl (TypeError ''Cannot read property cacheKey of undefined''),
      (ex_world [(''/index.html'', ex_response 200 False)] [],
       \<lparr>lookups = 1, fetches = 0, stores = 0\<rparr>))"
  by (simp add: handleFetch_def counted_def ex_defs)

text \<open>
  Claim C7: a request absent from the cache store, with the network fallback not
  disabled, is to be answered with the result of exactly one fetch, and no call makes more
  than one lookup or more than one fetch. The bound on the calls holds always (lemma
  \<open>handleFetch_calls\<close>), and the fetch's result is returned in a production build and in
  any build when the per-call parameters are present (lemma \<open>handleFetch_fallback\<close>). In a
  build that is not a production build, with the parameters absent, the one fetch is made
  and then line 75 reads \<open>handler.params.cacheKey\<close>: the call ends in a \<open>TypeError\<close> in
  place of the fetched response.
\<close>

theorem C7_fallback_without_params_TypeError:
  "map_of (cache (ex_world [] [(''/index.html'', ex_response 200 False)])) (url ex_request) =
     None \<and>
   handleFetch ''development'' ex_strategy ex_request
       (counted (newStrategyHandler ex_strategy (Some \<lparr>event_type = ''fetch''\<rparr>) None))
       (ex_world [] [(''/index.html'', ex_response 200 False)], no_calls) =
     (Inl (TypeError ''Cannot read property cacheKey of undefined''),
      (ex_world [] [(''/index.html'', ex_response 200 False)],
       \<lparr>lookups = 1, fetches = 1, stores = 0\<rparr>))"
  by (simp add: handleFetch_def counted_def ex_defs)

text \<open>
  Claim C9: on a miss of the cache lookup, the server throws \<open>missing-precache-entry\<close>,
  without a fetch, when the per-call parameters are present and their \<open>fallbackToNetwork\<close>
  is exactly \<open>false\<close>. When the parameters are absent, or \<open>fallbackToNetwork\<close> is unset or
  any other value, it makes one fetch instead, and the call ends as the fetch ended (or, in
  a build that is not a production build with the parameters absent, in the \<open>TypeError\<close> of
  line 75).
\<close>

theorem C9_missing_entry_only_when_disabled:
  assumes "cacheMatch h req w = (Inr None, w1)"
  shows "((\<exists>p. params h = Some p \<and> fallbackToNetwork p = JBool False) \<longrightarrow>
            handleFetch NODE_ENV self req (counted h) (w, c) =
              (Inl (WorkboxError ''missing-precache-entry''
                     [(''cacheName'', JStr (cacheName self)), (''url'', JStr (url req))]),
               (w1, c\<lparr>lookups := Suc (lookups c)\<rparr>))) \<and>
         (params h = None \<or> (\<exists>p. params h = Some p \<and> fallbackToNetwork p \<noteq> JBool False) \<longrightarrow>
            handleFetch NODE_ENV self req (counted h) (w, c) =
              ((case fst (fetch h req w1) of
                  Inl e \<Rightarrow> Inl e
                | Inr res \<Rightarrow>
                    if NODE_ENV \<noteq> ''production'' \<and> params h = None
                    then Inl (TypeError ''Cannot read property cacheKey of undefined'')
                    else Inr res),
               (snd (fetch h req w1),
                c\<lparr>lookups := Suc (lookups c), fetches := Suc (fetches c)\<rparr>)))"
  using assms
  by (auto simp: handleFetch_def counted_cacheMatch counted_fetch counted_params
      split: option.splits sum.splits prod.splits)

theorem C9_missing_entry_only_when_disabled_witness:
  "handleFetch ''production'' ex_strategy ex_request
       (counted (newStrategyHandler ex_strategy (Some \<lparr>event_type = ''fetch''\<rparr>)
          (Some \<lparr>fallbackToNetwork = JBool False, cacheKey = JStr ''/index.html?v=1''\<rparr>)))
       (ex_world [] [(''/index.html'', ex_response 200 False)], no_calls) =
     (Inl (WorkboxError ''missing-precache-entry''
            [(''cacheName'', JStr ''precache-v1''), (''url'', JStr ''/index.html'')]),
      (ex_world [] [(''/index.html'', ex_response 200 False)],
       \<lparr>lookups = 1, fetches = 0, stores = 0\<rparr>)) \<and>
   handleFetch ''production'' ex_strategy ex_request
       (counted (newStrategyHandler ex_strategy (Some \<lparr>event_type = ''fetch''\<rparr>) None))
       (ex_world [] [(''/index.html'', ex_response 200 False)], no_calls) =
     (Inr (Some (ex_response 200 False)),
      (ex_world [] [(''/index.html'', ex_response 200 False)],
       \<lparr>lookups = 1, fetches = 1, stores = 0\<rparr>)) \<and>
   handleFetch ''development'' ex_strategy ex_request
       (counted (newStrategyHandler ex_strategy (Some \<lparr>event_type = ''fetch''\<rparr>)
          (Some \<lparr>fallbackToNetwork = JUndefined, cacheKey = JStr ''/index.html?v=1''\<rparr>)))
       (ex_world [] [(''/index.html'', ex_response 200 False)], no_calls) =
     (Inr (Some (ex_response 200 False)),
      (ex_world [] [(''/index.html'', ex_response 200 False)],
       \<lparr>lookups = 1, fetches = 1, stores = 0\<rparr>)) \<and>
   handleFetch ''development'' ex_strategy ex_request
       (counted (newStrategyHandler ex_strategy (Some \<lparr>event_type = ''fetch''\<rparr>)
          (Some \<lparr>fallbackToNetwork = JNum 0, cacheKey = JStr ''/index.html?v=1''\<rparr>)))
       (ex_world [] [(''/index.html'', ex_response 200 False)], no_calls) =
     (Inr (Some (ex_response 200 False)),
      (ex_world [] [(''/index.html'', ex_response 200 False)],
       \<lparr>lookups = 1, fetches = 1, stores = 0\<rparr>))"
  using
    C9_missing_entry_only_when_disabled
      [of "newStrategyHandler ex_strategy (Some \<lparr>event_type = ''fetch''\<rparr>)
            (Some \<lparr>fallbackToNetwork = JBool False, cacheKey = JStr ''/index.html?v=1''\<rparr>)"
        ex_request "ex_world [] [(''/index.html'', ex_response 200 False)]"
        "ex_world [] [(''/index.html'', ex_response 200 False)]"
        "''production''" ex_strategy no_calls]
    C9_missing_entry_only_when_disabled
      [of "newStrategyHandler ex_strategy (Some \<lparr>event_type = ''fetch''\<rparr>) None"
        ex_request "ex_world [] [(''/index.html'', ex_response 200 False)]"
        "ex_world [] [(''/index.html'', ex_response 200 False)]"
        "''production''" ex_strategy no_calls]
    C9_missing_entry_only_when_disabled
      [of "newStrategyHandler ex_strategy (Some \<lparr>event_type = ''fetch''\<rparr>)
            (Some \<lparr>fallbackToNetwork = JUndefined, cacheKey = JStr ''/index.html?v=1''\<rparr>)"
        ex_request "ex_world [] [(''/index.html'', ex_response 200 False)]"
        "ex_world [] [(''/index.html'', ex_response 200 False)]"
        "''development''" ex_strategy no_calls]
    C9_missing_entry_only_when_disabled
      [of "newStrategyHandler ex_strategy (Some \<lparr>event_type = ''fetch''\<rparr>)
            (Some \<lparr>fallbackToNetwork = JNum 0, cacheKey = JStr ''/index.html?v=1''\<rparr>)"
        ex_request "ex_world [] [(''/index.html'', ex_response 200 False)]"
        "ex_world [] [(''/index.html'', ex_response 200 False)]"
        "''development''" ex_strategy no_calls]
  by (simp add: ex_defs)

end
